theory Spec2Isabelle
  imports Main
begin

section \<open>Data model (src/app/models.py)\<close>

text \<open>
  \<^verbatim>\<open>DocumentStatus\<close> is a string enum with five members. A stored status is read back
  as the member whose string it equals, so the stored value is modelled by the member.
\<close>

datatype DocumentStatus = NEW | PENDING | IN_PROGRESS | CHANGES_MADE | APPROVED

text \<open>
  A Python \<^verbatim>\<open>datetime\<close> is a point on a linear time line, counted in microseconds since
  the epoch (the resolution of \<^verbatim>\<open>datetime\<close>); \<^verbatim>\<open>timedelta(days=1)\<close> is the number
  of microseconds of one day. The store keeps dates as BSON dates, which count whole
  milliseconds since the epoch: the driver encodes every \<^verbatim>\<open>datetime\<close> it writes, and
  every \<^verbatim>\<open>datetime\<close> in a filter, by dropping the microseconds below the millisecond
  (\<^verbatim>\<open>timegm(...) * 1000 + microsecond // 1000\<close>); a \<^verbatim>\<open>datetime\<close> without time zone, as
  \<^verbatim>\<open>datetime.now()\<close> returns it, is encoded as it reads.
\<close>

type_synonym datetime = int

type_synonym bson_date = int

definition datetime_to_millis :: "datetime \<Rightarrow> bson_date" where
  "datetime_to_millis t = t div 1000"

definition one_day :: int where
  "one_day = 86400000000"

text \<open>
  The \<^verbatim>\<open>content\<close> of a stored document is a string (base64 text) or raw bytes; the
  read handler tells the two apart with \<^verbatim>\<open>isinstance(..., bytes)\<close>.
\<close>

datatype content = Str string | Bytes string

text \<open>
  A stored document. The key \<^verbatim>\<open>_id\<close> is the key of the collection below and is not
  repeated in the record; the field \<^verbatim>\<open>notes\<close> is \<open>doc_notes\<close>. \<^verbatim>\<open>approvers\<close> and \<^verbatim>\<open>status\<close> are optional here although
  \<^verbatim>\<open>Document\<close> declares them mandatory: the update handler can store \<^verbatim>\<open>None\<close> in both
  (a reviewer's \<^verbatim>\<open>DocumentUpdate\<close> with an explicit null), and the handlers behave
  differently on it.
\<close>

record Document =
  title :: string
  content :: "content option"
  reviewer_id :: string
  approvers :: "string list option"
  status :: "DocumentStatus option"
  created_at :: bson_date
  last_modified :: bson_date
  doc_notes :: "string option"
  last_reviewed_by :: "string option"
  changes_summary :: "string option"

text \<open>
  A stored user; \<^verbatim>\<open>uid\<close> is the key \<^verbatim>\<open>_id\<close>. The role is kept as the string the
  handlers compare it with. The dictionary \<^verbatim>\<open>current_user\<close> that the handlers receive
  is such a user (they read its \<^verbatim>\<open>_id\<close> and \<^verbatim>\<open>role\<close> only).
\<close>

record User =
  uid :: string
  email :: string
  password :: string
  role :: string

text \<open>
  The request body \<^verbatim>\<open>DocumentUpdate\<close>. Every field is optional, and pydantic records
  which fields the request has set: the outer \<open>None\<close> is a field the request does not
  mention, \<open>Some None\<close> an explicit null, \<open>Some (Some v)\<close> a value.
\<close>

record DocumentUpdate =
  upd_content :: "string option option"
  upd_approvers :: "string list option option"
  upd_status :: "DocumentStatus option option"
  upd_notes :: "string option option"
  upd_changes_summary :: "string option option"

text \<open>Reading an attribute of the body: a field that is not set reads as its default \<^verbatim>\<open>None\<close>.\<close>

fun attr :: "'a option option \<Rightarrow> 'a option" where
  "attr None = None"
| "attr (Some v) = v"

text \<open>
  The dictionary \<^verbatim>\<open>update_data\<close> handed to the store: for each key the handlers can
  put into it, \<open>None\<close> when the key is absent and \<open>Some v\<close> when it is present with
  value \<open>v\<close>.
\<close>

record UpdateData =
  set_content :: "content option option"
  set_approvers :: "string list option option"
  set_status :: "DocumentStatus option option"
  set_notes :: "string option option"
  set_changes_summary :: "string option option"
  set_last_reviewed_by :: "string option option"
  set_last_modified :: "datetime option"

definition empty_update :: UpdateData where
  "empty_update =
     \<lparr>set_content = None, set_approvers = None, set_status = None, set_notes = None,
      set_changes_summary = None, set_last_reviewed_by = None, set_last_modified = None\<rparr>"

section \<open>The store (src/app/database.py)\<close>

text \<open>
  The documents collection maps the unique key \<^verbatim>\<open>_id\<close> to the document. The users
  collection is a list in the collection's natural order, since users are looked up by
  \<^verbatim>\<open>_id\<close> and by \<^verbatim>\<open>email\<close> and \<^verbatim>\<open>find_one\<close> returns the first match.
\<close>

record Database =
  users_collection :: "User list"
  documents_collection :: "string \<rightharpoonup> Document"

definition get_user_by_email :: "Database \<Rightarrow> string \<Rightarrow> User option" where
  "get_user_by_email db e = find (\<lambda>u. email u = e) (users_collection db)"

definition get_user_by_id :: "Database \<Rightarrow> string \<Rightarrow> User option" where
  "get_user_by_id db user_id = find (\<lambda>u. uid u = user_id) (users_collection db)"

definition get_document_by_id :: "Database \<Rightarrow> string \<Rightarrow> Document option" where
  "get_document_by_id db doc_id = documents_collection db doc_id"

text \<open>
  The operator \<^verbatim>\<open>$set\<close>: every key present in the dictionary overwrites the field. The
  \<^verbatim>\<open>datetime\<close> under \<^verbatim>\<open>last_modified\<close> is stored as a BSON date.
\<close>

definition apply_set :: "UpdateData \<Rightarrow> Document \<Rightarrow> Document" where
  "apply_set ud d =
     d\<lparr>content := (case set_content ud of None \<Rightarrow> content d | Some v \<Rightarrow> v),
       approvers := (case set_approvers ud of None \<Rightarrow> approvers d | Some v \<Rightarrow> v),
       status := (case set_status ud of None \<Rightarrow> status d | Some v \<Rightarrow> v),
       doc_notes := (case set_notes ud of None \<Rightarrow> doc_notes d | Some v \<Rightarrow> v),
       changes_summary := (case set_changes_summary ud of None \<Rightarrow> changes_summary d | Some v \<Rightarrow> v),
       last_reviewed_by := (case set_last_reviewed_by ud of None \<Rightarrow> last_reviewed_by d | Some v \<Rightarrow> v),
       last_modified :=
         (case set_last_modified ud of None \<Rightarrow> last_modified d | Some v \<Rightarrow> datetime_to_millis v)\<rparr>"

text \<open>\<^verbatim>\<open>update_one({"_id": doc_id}, {"$set": ...})\<close>: a key that matches nothing changes nothing.\<close>

definition update_one :: "string \<Rightarrow> UpdateData \<Rightarrow> (string \<rightharpoonup> Document) \<Rightarrow> (string \<rightharpoonup> Document)" where
  "update_one doc_id ud docs =
     (case docs doc_id of None \<Rightarrow> docs | Some d \<Rightarrow> docs(doc_id \<mapsto> apply_set ud d))"

text \<open>
  \<^verbatim>\<open>update_document\<close> stamps the dictionary with \<^verbatim>\<open>datetime.now()\<close> (the argument
  \<open>now\<close>) before it writes.
\<close>

definition update_document :: "datetime \<Rightarrow> string \<Rightarrow> UpdateData \<Rightarrow> Database \<Rightarrow> Database" where
  "update_document now doc_id update_data db =
     db\<lparr>documents_collection :=
          update_one doc_id (update_data\<lparr>set_last_modified := Some now\<rparr>) (documents_collection db)\<rparr>"

text \<open>
  The status sweep, \<^verbatim>\<open>update_document_status\<close> of database.py (the handler of the same
  name in main.py is \<open>update_document_status\<close> below, so this one carries the
  module's name in front): \<^verbatim>\<open>update_many\<close> with the filter
  \<^verbatim>\<open>status = "new"\<close> and \<^verbatim>\<open>created_at < now - 1 day\<close>, setting \<^verbatim>\<open>status\<close> to
  \<^verbatim>\<open>"pending"\<close>. The filter's \<^verbatim>\<open>datetime\<close> reaches the store as a BSON date, and the
  store compares the stored date with that.
\<close>

definition sweep_matches :: "datetime \<Rightarrow> Document \<Rightarrow> bool" where
  "sweep_matches one_day_ago d =
     (status d = Some NEW \<and> created_at d < datetime_to_millis one_day_ago)"

definition update_many_status :: "datetime \<Rightarrow> (string \<rightharpoonup> Document) \<Rightarrow> (string \<rightharpoonup> Document)" where
  "update_many_status one_day_ago docs =
     (\<lambda>k. case docs k of None \<Rightarrow> None
          | Some d \<Rightarrow> Some (if sweep_matches one_day_ago d then d\<lparr>status := Some PENDING\<rparr> else d))"

definition db_update_document_status :: "datetime \<Rightarrow> Database \<Rightarrow> Database" where
  "db_update_document_status now db =
     (let one_day_ago = now - one_day
      in db\<lparr>documents_collection := update_many_status one_day_ago (documents_collection db)\<rparr>)"

section \<open>Errors\<close>

text \<open>
  A handler ends with a value or with an exception: an \<^verbatim>\<open>HTTPException\<close> with its
  status code, or another exception (\<^verbatim>\<open>TypeError\<close> on \<^verbatim>\<open>None\<close>, \<^verbatim>\<open>InvalidId\<close> from
  \<^verbatim>\<open>ObjectId\<close>, \<^verbatim>\<open>DuplicateKeyError\<close> from an insertion, a validation error from a
  response model), which the server answers with status 500 when nothing catches it.
\<close>

datatype error = HTTPException nat | TypeError | InvalidId | DuplicateKeyError | ValidationError




text \<open>Python's \<^verbatim>\<open>x not in xs\<close>, which raises \<^verbatim>\<open>TypeError\<close> when \<^verbatim>\<open>xs\<close> is \<^verbatim>\<open>None\<close>.\<close>

fun py_not_in :: "string \<Rightarrow> string list option \<Rightarrow> error + bool" where
  "py_not_in x None = Inl TypeError"
| "py_not_in x (Some xs) = Inr (x \<notin> set xs)"

text \<open>Truth value of an optional string: \<^verbatim>\<open>None\<close> and the empty string are false.\<close>

fun truthy :: "string option \<Rightarrow> bool" where
  "truthy None = False"
| "truthy (Some s) = (s \<noteq> [])"

section \<open>The handlers of src/app/main.py\<close>

subsection \<open>POST /token and the user lookups\<close>




subsection \<open>POST /documents/{document_id}/approvers\<close>

text \<open>
  The loop over \<^verbatim>\<open>approver_ids\<close>. Its test, \<^verbatim>\<open>not approver or approver["role"] !=
  "approver"\<close>, is \<open>invalid_approver\<close>; the first id that fails it raises 400.
\<close>

definition invalid_approver :: "Database \<Rightarrow> string \<Rightarrow> bool" where
  "invalid_approver db approver_id =
     (case get_user_by_id db approver_id of
        None \<Rightarrow> True
      | Some approver \<Rightarrow> role approver \<noteq> ''approver'')"

fun verify_approvers :: "Database \<Rightarrow> string list \<Rightarrow> error option" where
  "verify_approvers db [] = None"
| "verify_approvers db (approver_id # rest) =
     (if invalid_approver db approver_id then Some (HTTPException 400)
      else verify_approvers db rest)"

definition add_approvers ::
  "datetime \<Rightarrow> User \<Rightarrow> string \<Rightarrow> string list \<Rightarrow> Database \<Rightarrow> (error + string) \<times> Database" where
  "add_approvers now current_user document_id approver_ids db =
     (case get_document_by_id db document_id of
        None \<Rightarrow> (Inl (HTTPException 404), db)
      | Some document \<Rightarrow>
          if role current_user \<noteq> ''reviewer'' \<or> uid current_user \<noteq> reviewer_id document
          then (Inl (HTTPException 403), db)
          else (case verify_approvers db approver_ids of
                  Some e \<Rightarrow> (Inl e, db)
                | None \<Rightarrow>
                    (Inr ''Approvers added successfully'',
                     update_document now document_id
                       (empty_update\<lparr>set_approvers := Some (Some approver_ids)\<rparr>) db)))"

subsection \<open>GET /documents/{document_id}\<close>

text \<open>
  Raw bytes that are not empty are replaced by their base64 text in the dictionary the
  handler returns; \<^verbatim>\<open>base64.b64encode\<close> is the parameter \<open>b64encode\<close>.
\<close>

definition encode_content :: "(string \<Rightarrow> string) \<Rightarrow> Document \<Rightarrow> Document" where
  "encode_content b64encode document =
     (case content document of
        Some (Bytes b) \<Rightarrow>
          if b \<noteq> [] then document\<lparr>content := Some (Str (b64encode b))\<rparr> else document
      | _ \<Rightarrow> document)"

text \<open>
  The handler returns the dictionary it fetched (with the content encoded), and writes
  the new status to the store only.
\<close>

definition get_document ::
  "(string \<Rightarrow> string) \<Rightarrow> datetime \<Rightarrow> User \<Rightarrow> string \<Rightarrow> Database
     \<Rightarrow> (error + Document) \<times> Database" where
  "get_document b64encode now current_user document_id db =
     (case get_document_by_id db document_id of
        None \<Rightarrow> (Inl (HTTPException 404), db)
      | Some document \<Rightarrow>
          (case (if uid current_user \<noteq> reviewer_id document
                 then py_not_in (uid current_user) (approvers document)
                 else Inr False) of
             Inl e \<Rightarrow> (Inl e, db)
           | Inr True \<Rightarrow> (Inl (HTTPException 403), db)
           | Inr False \<Rightarrow>
               (let document' = encode_content b64encode document
                in if status document' \<in> set [Some NEW, Some PENDING]
                   then (Inr document',
                         update_document now document_id
                           (empty_update\<lparr>set_status := Some (Some IN_PROGRESS)\<rparr>) db)
                   else (Inr document', db))))"

subsection \<open>PUT /documents/{document_id}\<close>

text \<open>
  The notification loop of the reviewer's branch reads \<^verbatim>\<open>approver['email']\<close>: an id
  with no user behind it raises \<^verbatim>\<open>TypeError\<close>.
\<close>

fun notify_approvers :: "Database \<Rightarrow> string list \<Rightarrow> error option" where
  "notify_approvers db [] = None"
| "notify_approvers db (approver_id # rest) =
     (case get_user_by_id db approver_id of
        None \<Rightarrow> Some TypeError
      | Some approver \<Rightarrow> notify_approvers db rest)"

text \<open>\<^verbatim>\<open>update.dict(exclude_unset=True)\<close>: the fields the request has set, nulls included.\<close>

definition dict_exclude_unset :: "DocumentUpdate \<Rightarrow> UpdateData" where
  "dict_exclude_unset update =
     empty_update\<lparr>set_content := map_option (map_option Str) (upd_content update),
                  set_approvers := upd_approvers update,
                  set_status := upd_status update,
                  set_notes := upd_notes update,
                  set_changes_summary := upd_changes_summary update\<rparr>"

definition reviewer_update_data :: "Database \<Rightarrow> Document \<Rightarrow> DocumentUpdate \<Rightarrow> error + UpdateData" where
  "reviewer_update_data db document update =
     (if attr (upd_status update) = Some CHANGES_MADE
      then (let update_data =
                  empty_update\<lparr>set_status := Some (Some CHANGES_MADE),
                               set_changes_summary := Some (attr (upd_changes_summary update)),
                               set_notes := Some (attr (upd_notes update))\<rparr>
            in case approvers document of
                 None \<Rightarrow> Inl TypeError
               | Some ids \<Rightarrow>
                   (case notify_approvers db ids of
                      Some e \<Rightarrow> Inl e
                    | None \<Rightarrow> Inr update_data))
      else Inr (dict_exclude_unset update))"

definition approver_update_data :: "User \<Rightarrow> DocumentUpdate \<Rightarrow> UpdateData" where
  "approver_update_data current_user update =
     (if attr (upd_status update) = Some APPROVED
      then empty_update\<lparr>set_status := Some (attr (upd_status update)),
                        set_notes := Some (attr (upd_notes update))\<rparr>
      else (let update_data =
                  empty_update\<lparr>set_status := Some (Some IN_PROGRESS),
                               set_notes := Some (attr (upd_notes update)),
                               set_last_reviewed_by := Some (Some (uid current_user))\<rparr>
            in if truthy (attr (upd_content update))
               then update_data\<lparr>set_content := Some (map_option Str (attr (upd_content update)))\<rparr>
               else update_data))"

text \<open>The end of the handler: the status is always part of the update, then the write.\<close>

definition write_update ::
  "datetime \<Rightarrow> string \<Rightarrow> Document \<Rightarrow> UpdateData \<Rightarrow> Database \<Rightarrow> (error + string) \<times> Database" where
  "write_update now document_id document update_data db =
     (let update_data' =
            (if set_status update_data = None
             then update_data\<lparr>set_status := Some (status document)\<rparr>
             else update_data)
      in (Inr ''Document updated successfully'', update_document now document_id update_data' db))"

definition update_document_status ::
  "datetime \<Rightarrow> User \<Rightarrow> string \<Rightarrow> DocumentUpdate \<Rightarrow> Database \<Rightarrow> (error + string) \<times> Database" where
  "update_document_status now current_user document_id update db =
     (case get_document_by_id db document_id of
        None \<Rightarrow> (Inl (HTTPException 404), db)
      | Some document \<Rightarrow>
          if role current_user = ''reviewer''
          then (if uid current_user \<noteq> reviewer_id document
                then (Inl (HTTPException 403), db)
                else (case reviewer_update_data db document update of
                        Inl e \<Rightarrow> (Inl e, db)
                      | Inr update_data \<Rightarrow> write_update now document_id document update_data db))
          else (case py_not_in (uid current_user) (approvers document) of
                  Inl e \<Rightarrow> (Inl e, db)
                | Inr True \<Rightarrow> (Inl (HTTPException 403), db)
                | Inr False \<Rightarrow>
                    write_update now document_id document
                      (approver_update_data current_user update) db))"

section \<open>DELETE /api/clauses/{clause_id} (src/app/clauses.py)\<close>

text \<open>
  The clauses collection is keyed by \<^verbatim>\<open>ObjectId\<close>. The constructor \<^verbatim>\<open>ObjectId(s)\<close> of
  the driver is the parameter \<open>ObjectId\<close>: \<open>None\<close> when it raises \<^verbatim>\<open>InvalidId\<close>.
  \<^verbatim>\<open>delete_one\<close> reports how many documents it removed.
\<close>

record Clause =
  clause_title :: string
  description :: string
  domain :: string

definition delete_one :: "'o \<Rightarrow> ('o \<rightharpoonup> 'c) \<Rightarrow> nat \<times> ('o \<rightharpoonup> 'c)" where
  "delete_one k clauses = (case clauses k of None \<Rightarrow> (0, clauses) | Some c \<Rightarrow> (1, clauses(k := None)))"

text \<open>The body of the \<^verbatim>\<open>try\<close> block.\<close>

definition delete_clause_try ::
  "(string \<Rightarrow> 'o option) \<Rightarrow> string \<Rightarrow> ('o \<rightharpoonup> 'c) \<Rightarrow> (error + string) \<times> ('o \<rightharpoonup> 'c)" where
  "delete_clause_try ObjectId clause_id clauses =
     (case ObjectId clause_id of
        None \<Rightarrow> (Inl InvalidId, clauses)
      | Some k \<Rightarrow>
          (case clauses k of
             None \<Rightarrow> (Inl (HTTPException 404), clauses)
           | Some existing_clause \<Rightarrow>
               (case delete_one k clauses of
                  (deleted_count, clauses') \<Rightarrow>
                    if deleted_count = 0 then (Inl (HTTPException 500), clauses')
                    else (Inr ''Clause deleted successfully'', clauses'))))"

text \<open>
  \<^verbatim>\<open>except Exception as e: raise HTTPException(status_code=500, ...)\<close>:
  \<^verbatim>\<open>HTTPException\<close> is an \<^verbatim>\<open>Exception\<close>, so the clause catches it as well.
\<close>

fun except_Exception :: "error + 'a \<Rightarrow> error + 'a" where
  "except_Exception (Inl e) = Inl (HTTPException 500)"
| "except_Exception (Inr v) = Inr v"

definition delete_clause ::
  "(string \<Rightarrow> 'o option) \<Rightarrow> string \<Rightarrow> ('o \<rightharpoonup> 'c) \<Rightarrow> (error + string) \<times> ('o \<rightharpoonup> 'c)" where
  "delete_clause ObjectId clause_id clauses =
     (case delete_clause_try ObjectId clause_id clauses of
        (r, clauses') \<Rightarrow> (except_Exception r, clauses'))"

section \<open>The other handlers of src/app/main.py\<close>

subsection \<open>POST /users/\<close>

text \<open>
  The request body is the model \<^verbatim>\<open>User\<close>, whose role is a member of \<^verbatim>\<open>UserRole\<close>.
  The handler stores the body with the password hashed and a fresh \<^verbatim>\<open>_id\<close>;
  \<^verbatim>\<open>get_password_hash\<close> (module \<^verbatim>\<open>auth\<close>) and the value of \<^verbatim>\<open>uuid.uuid4()\<close> are
  parameters. The stored dictionary also keeps the body's \<^verbatim>\<open>id\<close> and \<^verbatim>\<open>created_at\<close>,
  which no handler reads and the record \<open>User\<close> leaves out. \<^verbatim>\<open>insert_one\<close> raises
  \<^verbatim>\<open>DuplicateKeyError\<close> when the \<^verbatim>\<open>_id\<close> is taken.
\<close>

datatype UserRole = REVIEWER | APPROVER


record UserIn =
  in_id :: string
  in_email :: string
  in_password :: string
  in_role :: UserRole
  in_created_at :: datetime



subsection \<open>GET /documents/\<close>




subsection \<open>POST /api/documents/send-email and GET /\<close>

text \<open>
  The handler awaits the value of \<^verbatim>\<open>get_document_by_id\<close>, a plain function: what it
  returns (a dictionary or \<^verbatim>\<open>None\<close>) cannot be awaited, which raises \<^verbatim>\<open>TypeError\<close>
  inside the \<^verbatim>\<open>try\<close> block, before any mail is built.
\<close>

record EmailRequest =
  email_document_id :: string
  recipient_email :: string
  subject :: string
  message :: string



section \<open>The other handlers of src/app/clauses.py\<close>








section \<open>The chat handlers (src/app/ai_chat.py)\<close>







section \<open>Requests and their answers\<close>





section \<open>A small store used to run the handlers\<close>

definition ex_reviewer :: User where
  "ex_reviewer = \<lparr>uid = ''r1'', email = ''r1@example.org'', password = ''h1'', role = ''reviewer''\<rparr>"

definition ex_reviewer2 :: User where
  "ex_reviewer2 = \<lparr>uid = ''r2'', email = ''r2@example.org'', password = ''h2'', role = ''reviewer''\<rparr>"

definition ex_approver :: User where
  "ex_approver = \<lparr>uid = ''a1'', email = ''a1@example.org'', password = ''h3'', role = ''approver''\<rparr>"

definition ex_document :: Document where
  "ex_document =
     \<lparr>title = ''nda.sfdt'', content = None, reviewer_id = ''r1'', approvers = Some [''a1''],
      status = Some NEW, created_at = 0, last_modified = 0, doc_notes = None,
      last_reviewed_by = None, changes_summary = None\<rparr>"

text \<open>
  A second document, pending, with base64 text as content, whose approvers list holds
  the id of a user with role reviewer, and a third one that is already in progress. No
  example document holds raw bytes, so the handlers are run with the identity for
  \<open>b64encode\<close>.
\<close>

definition ex_document2 :: Document where
  "ex_document2 =
     \<lparr>title = ''lease.sfdt'', content = Some (Str ''UEsDBBQ=''), reviewer_id = ''r1'',
      approvers = Some [''a1'', ''r2''], status = Some PENDING, created_at = 0,
      last_modified = 0, doc_notes = None, last_reviewed_by = None, changes_summary = None\<rparr>"

definition ex_document3 :: Document where
  "ex_document3 =
     \<lparr>title = ''msa.sfdt'', content = None, reviewer_id = ''r1'', approvers = Some [''a1''],
      status = Some IN_PROGRESS, created_at = 0, last_modified = 3, doc_notes = None,
      last_reviewed_by = None, changes_summary = None\<rparr>"

definition ex_db :: Database where
  "ex_db =
     \<lparr>users_collection = [ex_reviewer, ex_reviewer2, ex_approver],
      documents_collection =
        [''d1'' \<mapsto> ex_document, ''d2'' \<mapsto> ex_document2, ''d3'' \<mapsto> ex_document3]\<rparr>"

text \<open>Two request bodies: an approval, and a rejection that sets only the notes.\<close>

definition ex_approve :: DocumentUpdate where
  "ex_approve =
     \<lparr>upd_content = None, upd_approvers = None, upd_status = Some (Some APPROVED),
      upd_notes = Some (Some ''fine''), upd_changes_summary = None\<rparr>"

definition ex_reject :: DocumentUpdate where
  "ex_reject =
     \<lparr>upd_content = None, upd_approvers = None, upd_status = None,
      upd_notes = Some (Some ''clause 4 is missing''), upd_changes_summary = None\<rparr>"

text \<open>
  A clauses collection with one clause, and an instance of the parameter \<open>ObjectId\<close>
  that accepts the 24 hexadecimal digits an \<^verbatim>\<open>ObjectId\<close> prints as.
\<close>

definition ex_ObjectId :: "string \<Rightarrow> string option" where
  "ex_ObjectId s =
     (if length s = 24 \<and> list_all (\<lambda>c. c \<in> set ''0123456789abcdef'') s then Some s else None)"

definition ex_clauses :: "string \<rightharpoonup> Clause" where
  "ex_clauses =
     [''65f0c0ffee0000000000ab12'' \<mapsto>
        \<lparr>clause_title = ''Confidentiality'', description = ''Keep it secret'', domain = ''nda''\<rparr>]"




lemmas ex_defs =
  ex_db_def ex_document_def ex_document2_def ex_document3_def
  ex_reviewer_def ex_reviewer2_def ex_approver_def ex_approve_def ex_reject_def

lemmas store_defs =
  get_document_by_id_def get_user_by_id_def get_user_by_email_def
  update_document_def update_one_def apply_set_def empty_update_def datetime_to_millis_def

section \<open>Facts about the store\<close>

lemma update_document_lookup:
  "get_document_by_id db k = Some d \<Longrightarrow>
   get_document_by_id (update_document now k ud db) k =
     Some (apply_set (ud\<lparr>set_last_modified := Some now\<rparr>) d)"
  by (simp add: get_document_by_id_def update_document_def update_one_def)

lemma update_document_other:
  "k' \<noteq> k \<Longrightarrow> get_document_by_id (update_document now k ud db) k' = get_document_by_id db k'"
  by (simp add: get_document_by_id_def update_document_def update_one_def split: option.splits)

lemma update_document_users:
  "users_collection (update_document now k ud db) = users_collection db"
  by (simp add: update_document_def)

section \<open>Reading a document\<close>

lemma status_encode_content: "status (encode_content b64 d) = status d"
  by (simp add: encode_content_def split: option.splits content.splits)

text \<open>
  A caller who is the document's reviewer, or whose id is in its approvers list, gets the
  fetched document back; the store is rewritten exactly when the status was NEW or
  PENDING.
\<close>

lemma get_document_authorized:
  assumes "get_document_by_id db k = Some d"
      and "uid cu = reviewer_id d \<or> (approvers d = Some ids \<and> uid cu \<in> set ids)"
  shows "get_document b64 now cu k db =
           (Inr (encode_content b64 d),
            if status d = Some NEW \<or> status d = Some PENDING
            then update_document now k (empty_update\<lparr>set_status := Some (Some IN_PROGRESS)\<rparr>) db
            else db)"
  using assms by (auto simp: get_document_def Let_def status_encode_content)

lemma status_after_read:
  "get_document_by_id db k = Some d \<Longrightarrow>
   get_document_by_id
     (update_document now k (empty_update\<lparr>set_status := Some (Some IN_PROGRESS)\<rparr>) db) k =
     Some (d\<lparr>status := Some IN_PROGRESS, last_modified := datetime_to_millis now\<rparr>)"
  by (simp add: update_document_lookup apply_set_def empty_update_def)

text \<open>
  Claim C1. An authorized read of a document whose status is NEW or PENDING leaves the
  stored status at IN_PROGRESS; an authorized read of a document with any other status
  leaves the store as it was; and a second read (at any later time \<open>now'\<close>) after a first
  one never changes the store again, so the transition happens once.
\<close>

theorem read_transition_idempotent:
  assumes "get_document_by_id db k = Some d"
      and "uid cu = reviewer_id d \<or> (approvers d = Some ids \<and> uid cu \<in> set ids)"
  shows "(status d = Some NEW \<or> status d = Some PENDING \<longrightarrow>
            map_option status (get_document_by_id (snd (get_document b64 now cu k db)) k)
              = Some (Some IN_PROGRESS))
       \<and> (status d \<noteq> Some NEW \<and> status d \<noteq> Some PENDING \<longrightarrow>
            snd (get_document b64 now cu k db) = db)
       \<and> snd (get_document b64 now' cu k (snd (get_document b64 now cu k db)))
            = snd (get_document b64 now cu k db)"
proof -
  let ?db1 = "snd (get_document b64 now cu k db)"
  have first: "?db1 = (if status d = Some NEW \<or> status d = Some PENDING
                 then update_document now k (empty_update\<lparr>set_status := Some (Some IN_PROGRESS)\<rparr>) db
                 else db)"
    using get_document_authorized [OF assms] by simp
  show ?thesis
  proof (cases "status d = Some NEW \<or> status d = Some PENDING")
    case True
    then have db1: "get_document_by_id ?db1 k = Some (d\<lparr>status := Some IN_PROGRESS, last_modified := datetime_to_millis now\<rparr>)"
      using first status_after_read [OF assms(1)] by simp
    have auth: "uid cu = reviewer_id (d\<lparr>status := Some IN_PROGRESS, last_modified := datetime_to_millis now\<rparr>)
        \<or> (approvers (d\<lparr>status := Some IN_PROGRESS, last_modified := datetime_to_millis now\<rparr>) = Some ids \<and> uid cu \<in> set ids)"
      using assms(2) by simp
    have "snd (get_document b64 now' cu k ?db1) = ?db1"
      using get_document_authorized [OF db1 auth] by simp
    with True db1 show ?thesis by auto
  next
    case False
    then have "?db1 = db" using first by simp
    moreover have "snd (get_document b64 now' cu k db) = db"
      using get_document_authorized [OF assms] False by simp
    ultimately show ?thesis using False by simp
  qed
qed

text \<open>
  The theorem at the example store: the reviewer reads the NEW document \<open>d1\<close> at time 5
  and again at time 9, and the approver reads \<open>d3\<close>, which is IN_PROGRESS.
\<close>

theorem read_transition_idempotent_witness:
  "get_document_by_id ex_db ''d1'' = Some ex_document
   \<and> uid ex_reviewer = reviewer_id ex_document
   \<and> status ex_document = Some NEW
   \<and> map_option status
        (get_document_by_id (snd (get_document id 5000 ex_reviewer ''d1'' ex_db)) ''d1'')
        = Some (Some IN_PROGRESS)
   \<and> snd (get_document id 9000 ex_reviewer ''d1'' (snd (get_document id 5000 ex_reviewer ''d1'' ex_db)))
        = snd (get_document id 5000 ex_reviewer ''d1'' ex_db)
   \<and> get_document_by_id ex_db ''d3'' = Some ex_document3
   \<and> approvers ex_document3 = Some [''a1''] \<and> uid ex_approver \<in> set [''a1'']
   \<and> status ex_document3 = Some IN_PROGRESS
   \<and> snd (get_document id 5000 ex_approver ''d3'' ex_db) = ex_db"
proof -
  have d1: "get_document_by_id ex_db ''d1'' = Some ex_document"
    by (simp add: get_document_by_id_def ex_db_def)
  have a1: "uid ex_reviewer = reviewer_id ex_document \<or>
            (approvers ex_document = Some [] \<and> uid ex_reviewer \<in> set [])"
    by (simp add: ex_defs)
  have s1: "status ex_document = Some NEW"
    by (simp add: ex_defs)
  have d3: "get_document_by_id ex_db ''d3'' = Some ex_document3"
    by (simp add: get_document_by_id_def ex_db_def)
  have a3: "uid ex_approver = reviewer_id ex_document3 \<or>
            (approvers ex_document3 = Some [''a1''] \<and> uid ex_approver \<in> set [''a1''])"
    by (simp add: ex_defs)
  have s3: "status ex_document3 = Some IN_PROGRESS"
    by (simp add: ex_defs)
  show ?thesis
    using read_transition_idempotent [OF d1 a1, of id 5000 9000]
          read_transition_idempotent [OF d3 a3, of id 5000 9000] d1 d3 s1 s3
    by (simp add: ex_defs)
qed

text \<open>
  Claim C10. The response of an authorized read of a NEW or PENDING document carries the
  status the document had before the read, while the store already holds IN_PROGRESS;
  the next read returns IN_PROGRESS.
\<close>

theorem read_returns_old_status:
  assumes "get_document_by_id db k = Some d"
      and "uid cu = reviewer_id d \<or> (approvers d = Some ids \<and> uid cu \<in> set ids)"
      and "status d = Some NEW \<or> status d = Some PENDING"
  shows "(\<exists>r. fst (get_document b64 now cu k db) = Inr r \<and> status r = status d)
       \<and> map_option status (get_document_by_id (snd (get_document b64 now cu k db)) k)
            = Some (Some IN_PROGRESS)
       \<and> (\<exists>r'. fst (get_document b64 now' cu k (snd (get_document b64 now cu k db))) = Inr r'
              \<and> status r' = Some IN_PROGRESS)"
proof -
  let ?d1 = "d\<lparr>status := Some IN_PROGRESS, last_modified := datetime_to_millis now\<rparr>"
  let ?db1 = "snd (get_document b64 now cu k db)"
  have r: "get_document b64 now cu k db =
        (Inr (encode_content b64 d),
         update_document now k (empty_update\<lparr>set_status := Some (Some IN_PROGRESS)\<rparr>) db)"
    using get_document_authorized [OF assms(1,2)] assms(3) by simp
  have db1: "get_document_by_id ?db1 k = Some ?d1"
    using r status_after_read [OF assms(1)] by simp
  have auth: "uid cu = reviewer_id ?d1 \<or> (approvers ?d1 = Some ids \<and> uid cu \<in> set ids)"
    using assms(2) by simp
  have "fst (get_document b64 now' cu k ?db1) = Inr (encode_content b64 ?d1)"
    using get_document_authorized [OF db1 auth] by simp
  then show ?thesis using r db1 by (simp add: status_encode_content)
qed

text \<open>
  The theorem at the example store: the approver \<open>a1\<close> reads the PENDING document
  \<open>d2\<close>; the response says PENDING, the store says IN_PROGRESS.
\<close>

theorem read_returns_old_status_witness:
  "get_document_by_id ex_db ''d2'' = Some ex_document2
   \<and> approvers ex_document2 = Some [''a1'', ''r2''] \<and> uid ex_approver \<in> set [''a1'', ''r2'']
   \<and> status ex_document2 = Some PENDING
   \<and> (\<exists>r. fst (get_document id 5000 ex_approver ''d2'' ex_db) = Inr r \<and> status r = Some PENDING)
   \<and> map_option status
        (get_document_by_id (snd (get_document id 5000 ex_approver ''d2'' ex_db)) ''d2'')
        = Some (Some IN_PROGRESS)"
proof -
  have d2: "get_document_by_id ex_db ''d2'' = Some ex_document2"
    by (simp add: get_document_by_id_def ex_db_def)
  have a2: "uid ex_approver = reviewer_id ex_document2 \<or>
            (approvers ex_document2 = Some [''a1'', ''r2''] \<and> uid ex_approver \<in> set [''a1'', ''r2''])"
    by (simp add: ex_defs)
  have s2: "status ex_document2 = Some NEW \<or> status ex_document2 = Some PENDING"
    by (simp add: ex_defs)
  have s2': "status ex_document2 = Some PENDING"
    by (simp add: ex_defs)
  show ?thesis
    using read_returns_old_status [OF d2 a2 s2, of id 5000 9000] d2 a2 s2'
    by (simp add: ex_defs)
qed

section \<open>Updating a document as an approver\<close>

lemma put_by_listed_approver:
  assumes "get_document_by_id db k = Some d"
      and "role cu = ''approver''"
      and "approvers d = Some ids" and "uid cu \<in> set ids"
  shows "update_document_status now cu k update db =
           write_update now k d (approver_update_data cu update) db"
  using assms by (simp add: update_document_status_def)

lemma write_update_result:
  assumes "get_document_by_id db k = Some d"
  shows "fst (write_update now k d ud db) = Inr ''Document updated successfully''"
    and "get_document_by_id (snd (write_update now k d ud db)) k =
           Some (apply_set ((if set_status ud = None then ud\<lparr>set_status := Some (status d)\<rparr> else ud)
                    \<lparr>set_last_modified := Some now\<rparr>) d)"
  using assms by (simp_all add: write_update_def Let_def update_document_lookup)

text \<open>
  Claim C2. When a caller with role approver whose id is in the document's approvers
  list sends an update whose status is APPROVED, the handler succeeds and the stored
  status is APPROVED, whatever the status was before.
\<close>

theorem approve_sets_approved:
  assumes "get_document_by_id db k = Some d"
      and "role cu = ''approver''"
      and "approvers d = Some ids" and "uid cu \<in> set ids"
      and "attr (upd_status update) = Some APPROVED"
  shows "fst (update_document_status now cu k update db) = Inr ''Document updated successfully''
       \<and> map_option status (get_document_by_id (snd (update_document_status now cu k update db)) k)
           = Some (Some APPROVED)"
proof -
  have ud: "set_status (approver_update_data cu update) = Some (Some APPROVED)"
    using assms(5) by (simp add: approver_update_data_def empty_update_def)
  show ?thesis
    unfolding put_by_listed_approver [OF assms(1-4)]
    using write_update_result [OF assms(1), of now "approver_update_data cu update"] ud
    by (simp add: apply_set_def)
qed

text \<open>The approver \<open>a1\<close> approves \<open>d3\<close>, which is IN_PROGRESS.\<close>

theorem approve_sets_approved_witness:
  "get_document_by_id ex_db ''d3'' = Some ex_document3
   \<and> role ex_approver = ''approver''
   \<and> approvers ex_document3 = Some [''a1''] \<and> uid ex_approver \<in> set [''a1'']
   \<and> attr (upd_status ex_approve) = Some APPROVED
   \<and> status ex_document3 = Some IN_PROGRESS
   \<and> fst (update_document_status 7000 ex_approver ''d3'' ex_approve ex_db)
        = Inr ''Document updated successfully''
   \<and> map_option status
        (get_document_by_id (snd (update_document_status 7000 ex_approver ''d3'' ex_approve ex_db)) ''d3'')
        = Some (Some APPROVED)"
proof -
  have h: "get_document_by_id ex_db ''d3'' = Some ex_document3"
          "role ex_approver = ''approver''"
          "approvers ex_document3 = Some [''a1'']" "uid ex_approver \<in> set [''a1'']"
          "attr (upd_status ex_approve) = Some APPROVED"
    by (simp_all add: get_document_by_id_def ex_defs)
  have s: "status ex_document3 = Some IN_PROGRESS"
    by (simp add: ex_defs)
  show ?thesis
    using approve_sets_approved [OF h, of 7000] h s by simp
qed

text \<open>
  Claim C3. When a caller with role approver whose id is in the document's approvers
  list sends an update whose status is not APPROVED, the handler succeeds and the stored
  document has status IN_PROGRESS, the notes of the request, and the caller's id as
  \<^verbatim>\<open>last_reviewed_by\<close>.
\<close>

theorem reject_sends_back:
  assumes "get_document_by_id db k = Some d"
      and "role cu = ''approver''"
      and "approvers d = Some ids" and "uid cu \<in> set ids"
      and "attr (upd_status update) \<noteq> Some APPROVED"
  shows "fst (update_document_status now cu k update db) = Inr ''Document updated successfully''
       \<and> (\<exists>d'. get_document_by_id (snd (update_document_status now cu k update db)) k = Some d'
               \<and> status d' = Some IN_PROGRESS
               \<and> doc_notes d' = attr (upd_notes update)
               \<and> last_reviewed_by d' = Some (uid cu))"
proof -
  let ?ud = "approver_update_data cu update"
  have ud: "set_status ?ud = Some (Some IN_PROGRESS)"
           "set_notes ?ud = Some (attr (upd_notes update))"
           "set_last_reviewed_by ?ud = Some (Some (uid cu))"
    using assms(5) by (simp_all add: approver_update_data_def empty_update_def Let_def)
  show ?thesis
    unfolding put_by_listed_approver [OF assms(1-4)]
    using write_update_result [OF assms(1), of now ?ud] ud
    by (simp add: apply_set_def)
qed

text \<open>The approver \<open>a1\<close> sends \<open>d3\<close> back with a note and no status.\<close>

theorem reject_sends_back_witness:
  "get_document_by_id ex_db ''d3'' = Some ex_document3
   \<and> role ex_approver = ''approver''
   \<and> approvers ex_document3 = Some [''a1''] \<and> uid ex_approver \<in> set [''a1'']
   \<and> attr (upd_status ex_reject) \<noteq> Some APPROVED
   \<and> fst (update_document_status 7000 ex_approver ''d3'' ex_reject ex_db)
        = Inr ''Document updated successfully''
   \<and> (\<exists>d'. get_document_by_id
               (snd (update_document_status 7000 ex_approver ''d3'' ex_reject ex_db)) ''d3'' = Some d'
          \<and> status d' = Some IN_PROGRESS
          \<and> doc_notes d' = Some ''clause 4 is missing''
          \<and> last_reviewed_by d' = Some ''a1'')"
proof -
  have h: "get_document_by_id ex_db ''d3'' = Some ex_document3"
          "role ex_approver = ''approver''"
          "approvers ex_document3 = Some [''a1'']" "uid ex_approver \<in> set [''a1'']"
          "attr (upd_status ex_reject) \<noteq> Some APPROVED"
    by (simp_all add: get_document_by_id_def ex_defs)
  have n: "attr (upd_notes ex_reject) = Some ''clause 4 is missing''" "uid ex_approver = ''a1''"
    by (simp_all add: ex_defs)
  show ?thesis
    using reject_sends_back [OF h, of 7000] h n by simp
qed

section \<open>Adding approvers\<close>

lemma verify_approvers_cases:
  "verify_approvers db ids =
     (if \<exists>a\<in>set ids. invalid_approver db a then Some (HTTPException 400) else None)"
  by (induction ids) auto

text \<open>
  Claim C5. When the document's assigned reviewer submits a list of approver ids: if some
  id fails the check (no such user, or a user whose role is not approver), the answer is
  400 and the whole store is as before; if every id passes, the handler succeeds and
  the document differs from before in its approvers (the submitted list) and its
  modification time only.
\<close>

theorem add_approvers_all_or_nothing:
  assumes "get_document_by_id db k = Some d"
      and "role cu = ''reviewer''" and "uid cu = reviewer_id d"
  shows "((\<exists>a\<in>set approver_ids. invalid_approver db a) \<longrightarrow>
            add_approvers now cu k approver_ids db = (Inl (HTTPException 400), db))
       \<and> ((\<forall>a\<in>set approver_ids. \<not> invalid_approver db a) \<longrightarrow>
            fst (add_approvers now cu k approver_ids db) = Inr ''Approvers added successfully''
            \<and> get_document_by_id (snd (add_approvers now cu k approver_ids db)) k
                = Some (d\<lparr>approvers := Some approver_ids, last_modified := datetime_to_millis now\<rparr>))"
  using assms
  by (simp add: add_approvers_def verify_approvers_cases update_document_lookup
        apply_set_def empty_update_def)

text \<open>
  The reviewer \<open>r1\<close> submits \<open>a1\<close> together with \<open>r2\<close>, a reviewer (rejected, store
  unchanged), and then \<open>a1\<close> alone (accepted).
\<close>

theorem add_approvers_all_or_nothing_witness:
  "get_document_by_id ex_db ''d1'' = Some ex_document
   \<and> role ex_reviewer = ''reviewer'' \<and> uid ex_reviewer = reviewer_id ex_document
   \<and> invalid_approver ex_db ''r2'' \<and> \<not> invalid_approver ex_db ''a1''
   \<and> add_approvers 7000 ex_reviewer ''d1'' [''a1'', ''r2''] ex_db = (Inl (HTTPException 400), ex_db)
   \<and> fst (add_approvers 7000 ex_reviewer ''d1'' [''a1''] ex_db) = Inr ''Approvers added successfully''
   \<and> get_document_by_id (snd (add_approvers 7000 ex_reviewer ''d1'' [''a1''] ex_db)) ''d1''
        = Some (ex_document\<lparr>approvers := Some [''a1''], last_modified := 7\<rparr>)"
proof -
  have h: "get_document_by_id ex_db ''d1'' = Some ex_document"
          "role ex_reviewer = ''reviewer''" "uid ex_reviewer = reviewer_id ex_document"
    by (simp_all add: get_document_by_id_def ex_defs)
  have i: "invalid_approver ex_db ''r2''" "\<not> invalid_approver ex_db ''a1''"
    by (simp_all add: invalid_approver_def get_user_by_id_def ex_defs)
  show ?thesis
    using add_approvers_all_or_nothing [OF h, of "[''a1'', ''r2'']" 7000]
          add_approvers_all_or_nothing [OF h, of "[''a1'']" 7000] h i
    by (simp add: datetime_to_millis_def)
qed


section \<open>Callers who are not on the document\<close>

text \<open>
  The update handler stores a reviewer's \<^verbatim>\<open>approvers\<close> field as it comes, without the
  check of \<open>add_approvers\<close>: this is how an approvers list can hold the id of a user
  with role reviewer.
\<close>

lemma reviewer_put_stores_approvers_unchecked:
  assumes "get_document_by_id db k = Some d"
      and "role cu = ''reviewer''" and "uid cu = reviewer_id d"
      and "attr (upd_status update) \<noteq> Some CHANGES_MADE"
      and "upd_approvers update = Some v"
  shows "map_option approvers (get_document_by_id (snd (update_document_status now cu k update db)) k)
           = Some v"
  using assms
  by (simp add: update_document_status_def reviewer_update_data_def write_update_def Let_def
        update_document_lookup apply_set_def dict_exclude_unset_def empty_update_def)

text \<open>
  Claim C6, as stated, fails for the read: the read handler does not look at the role.
  In the example store the user \<open>r2\<close> has role reviewer and is not the reviewer of
  \<open>d2\<close>, but the id is in the approvers list of \<open>d2\<close>; the read succeeds and moves the
  document to IN_PROGRESS.
\<close>

theorem foreign_reviewer_read_counterexample:
  "get_document_by_id ex_db ''d2'' = Some ex_document2
   \<and> role ex_reviewer2 = ''reviewer''
   \<and> uid ex_reviewer2 \<noteq> reviewer_id ex_document2
   \<and> fst (get_document id 5000 ex_reviewer2 ''d2'' ex_db) = Inr ex_document2
   \<and> get_document_by_id (snd (get_document id 5000 ex_reviewer2 ''d2'' ex_db)) ''d2''
       = Some (ex_document2\<lparr>status := Some IN_PROGRESS, last_modified := 5\<rparr>)"
  by (simp add: get_document_def encode_content_def store_defs ex_defs)

text \<open>
  Claim C6, amended. For an existing document and a caller with role reviewer whose id
  differs from the document's \<^verbatim>\<open>reviewer_id\<close>, the update handler answers 403 and leaves
  the store unchanged; the read handler does so when, in addition, the document's
  \<^verbatim>\<open>approvers\<close> field holds a list and the caller's id is not in that list.
\<close>

theorem foreign_reviewer_forbidden:
  assumes "get_document_by_id db k = Some d"
      and "role cu = ''reviewer''" and "uid cu \<noteq> reviewer_id d"
  shows "update_document_status now cu k update db = (Inl (HTTPException 403), db)
       \<and> (approvers d = Some ids \<and> uid cu \<notin> set ids \<longrightarrow>
            get_document b64 now cu k db = (Inl (HTTPException 403), db))"
  using assms by (simp add: update_document_status_def get_document_def)

text \<open>The reviewer \<open>r2\<close> on \<open>d1\<close>, whose reviewer is \<open>r1\<close> and whose approvers are \<open>[a1]\<close>.\<close>

theorem foreign_reviewer_forbidden_witness:
  "get_document_by_id ex_db ''d1'' = Some ex_document
   \<and> role ex_reviewer2 = ''reviewer'' \<and> uid ex_reviewer2 \<noteq> reviewer_id ex_document
   \<and> approvers ex_document = Some [''a1''] \<and> uid ex_reviewer2 \<notin> set [''a1'']
   \<and> update_document_status 7000 ex_reviewer2 ''d1'' ex_reject ex_db = (Inl (HTTPException 403), ex_db)
   \<and> get_document id 7000 ex_reviewer2 ''d1'' ex_db = (Inl (HTTPException 403), ex_db)"
proof -
  have h: "get_document_by_id ex_db ''d1'' = Some ex_document"
          "role ex_reviewer2 = ''reviewer''" "uid ex_reviewer2 \<noteq> reviewer_id ex_document"
    by (simp_all add: get_document_by_id_def ex_defs)
  have a: "approvers ex_document = Some [''a1'']" "uid ex_reviewer2 \<notin> set [''a1'']"
    by (simp_all add: ex_defs)
  show ?thesis
    using foreign_reviewer_forbidden [OF h, of 7000 ex_reject "[''a1'']" id] h a by simp
qed

section \<open>The status sweep\<close>

lemma sweep_keeps_keys:
  "dom (documents_collection (db_update_document_status now db)) = dom (documents_collection db)"
  by (auto simp: db_update_document_status_def update_many_status_def Let_def split: option.splits)

text \<open>
  The filter in the clock's microseconds: a stored date \<open>c\<close> (milliseconds) lies before
  the encoded \<^verbatim>\<open>now - 1 day\<close> exactly when \<open>now\<close> is at least one day and one
  millisecond after it.
\<close>

lemma sweep_threshold:
  "c < datetime_to_millis (now - one_day) \<longleftrightarrow> c * 1000 + one_day + 1000 \<le> now"
  unfolding datetime_to_millis_def by linarith

text \<open>
  Claim C7, as stated, fails at the resolution of the clock: in the example store \<open>d1\<close>
  is NEW and was created at time 0; one day and one microsecond later it is more than one
  day old, and the sweep leaves it NEW.
\<close>

theorem sweep_one_day_counterexample:
  "get_document_by_id ex_db ''d1'' = Some ex_document
   \<and> status ex_document = Some NEW
   \<and> created_at ex_document * 1000 + one_day < one_day + 1
   \<and> get_document_by_id (db_update_document_status (one_day + 1) ex_db) ''d1'' = Some ex_document"
  by (simp add: db_update_document_status_def update_many_status_def sweep_matches_def
        get_document_by_id_def datetime_to_millis_def one_day_def ex_defs)

text \<open>
  Claim C7, amended. The sweep run at time \<open>now\<close> turns a stored document into the same
  document with status PENDING when its status is NEW and its creation date lies at least
  one day and one millisecond before \<open>now\<close> (that is, before \<^verbatim>\<open>now - 1 day\<close> cut to
  whole milliseconds), leaves every other stored document as it is, and does not touch
  the users.
\<close>

theorem sweep_exactly_stale_new:
  assumes "get_document_by_id db k = Some d"
  shows "(status d = Some NEW \<and> created_at d * 1000 + one_day + 1000 \<le> now \<longrightarrow>
            get_document_by_id (db_update_document_status now db) k = Some (d\<lparr>status := Some PENDING\<rparr>))
       \<and> (\<not> (status d = Some NEW \<and> created_at d * 1000 + one_day + 1000 \<le> now) \<longrightarrow>
            get_document_by_id (db_update_document_status now db) k = Some d)
       \<and> users_collection (db_update_document_status now db) = users_collection db"
  using assms sweep_threshold [of "created_at d" now]
  by (auto simp: db_update_document_status_def update_many_status_def sweep_matches_def
        get_document_by_id_def Let_def)

text \<open>
  In the example store all documents were created at time 0. One day and one millisecond
  later \<open>d1\<close> (NEW) becomes PENDING and \<open>d3\<close> (IN_PROGRESS) stays; one microsecond
  earlier \<open>d1\<close> stays NEW.
\<close>

theorem sweep_exactly_stale_new_witness:
  "get_document_by_id ex_db ''d1'' = Some ex_document
   \<and> status ex_document = Some NEW
   \<and> created_at ex_document * 1000 + one_day + 1000 \<le> one_day + 1000
   \<and> get_document_by_id (db_update_document_status (one_day + 1000) ex_db) ''d1''
        = Some (ex_document\<lparr>status := Some PENDING\<rparr>)
   \<and> get_document_by_id ex_db ''d3'' = Some ex_document3
   \<and> status ex_document3 \<noteq> Some NEW
   \<and> get_document_by_id (db_update_document_status (one_day + 1000) ex_db) ''d3'' = Some ex_document3
   \<and> \<not> created_at ex_document * 1000 + one_day + 1000 \<le> one_day + 999
   \<and> get_document_by_id (db_update_document_status (one_day + 999) ex_db) ''d1'' = Some ex_document"
proof -
  have d1: "get_document_by_id ex_db ''d1'' = Some ex_document"
   and d3: "get_document_by_id ex_db ''d3'' = Some ex_document3"
    by (simp_all add: get_document_by_id_def ex_defs)
  have f: "status ex_document = Some NEW" "created_at ex_document = 0"
          "status ex_document3 \<noteq> Some NEW"
    by (simp_all add: ex_defs)
  show ?thesis
    using sweep_exactly_stale_new [OF d1, of "one_day + 1000"]
          sweep_exactly_stale_new [OF d3, of "one_day + 1000"]
          sweep_exactly_stale_new [OF d1, of "one_day + 999"] d1 d3 f
    by simp
qed

section \<open>The modification time\<close>

lemma update_document_stamps:
  assumes "get_document_by_id db k = Some d"
  shows "map_option last_modified (get_document_by_id (update_document now k ud db) k)
           = Some (datetime_to_millis now)"
  using assms by (simp add: update_document_lookup apply_set_def)

text \<open>Each handler leaves the store alone or changes it by one call of \<open>update_document\<close>.\<close>

lemma get_document_writes:
  "snd (get_document b64 now cu k db) = db \<or>
   (\<exists>ud. snd (get_document b64 now cu k db) = update_document now k ud db)"
proof (cases "get_document_by_id db k")
  case None
  then show ?thesis by (simp add: get_document_def)
next
  case (Some d)
  then show ?thesis
    by (cases "approvers d"; cases "uid cu \<in> set (the (approvers d))")
       (auto simp: get_document_def Let_def)
qed

lemma write_update_snd:
  "\<exists>ud'. snd (write_update now k d ud db) = update_document now k ud' db"
  by (simp add: write_update_def Let_def) blast

lemma update_document_status_writes:
  "snd (update_document_status now cu k update db) = db \<or>
   (\<exists>ud. snd (update_document_status now cu k update db) = update_document now k ud db)"
proof (cases "get_document_by_id db k")
  case None
  then show ?thesis by (simp add: update_document_status_def)
next
  case (Some d)
  show ?thesis
  proof (cases "role cu = ''reviewer''")
    case True
    with Some show ?thesis
      using write_update_snd [of now k d _ db]
      by (cases "reviewer_update_data db d update") (simp_all add: update_document_status_def)
  next
    case False
    with Some show ?thesis
      using write_update_snd [of now k d "approver_update_data cu update" db]
      by (cases "approvers d"; cases "uid cu \<in> set (the (approvers d))")
         (simp_all add: update_document_status_def)
  qed
qed

lemma add_approvers_writes:
  "snd (add_approvers now cu k ids db) = db \<or>
   (\<exists>ud. snd (add_approvers now cu k ids db) = update_document now k ud db)"
proof (cases "get_document_by_id db k")
  case None
  then show ?thesis by (simp add: add_approvers_def)
next
  case (Some d)
  then show ?thesis
    by (cases "verify_approvers db ids") (auto simp: add_approvers_def)
qed

text \<open>
  Claim C9, as stated, fails in its second half: a mutation can leave \<^verbatim>\<open>last_modified\<close>
  at its previous value. In the example store \<open>d3\<close> was last modified at millisecond 3;
  an approval 500 microseconds into that millisecond changes the status and the notes
  and stores the stamp 3 again.
\<close>

theorem stamp_unchanged_counterexample:
  "get_document_by_id ex_db ''d3'' = Some ex_document3
   \<and> last_modified ex_document3 = 3
   \<and> status ex_document3 = Some IN_PROGRESS
   \<and> get_document_by_id
        (snd (update_document_status 3500 ex_approver ''d3'' ex_approve ex_db)) ''d3''
        = Some (ex_document3\<lparr>status := Some APPROVED, doc_notes := Some ''fine''\<rparr>)
   \<and> map_option last_modified
        (get_document_by_id
           (snd (update_document_status 3500 ex_approver ''d3'' ex_approve ex_db)) ''d3'')
        = Some 3"
  by (simp add: update_document_status_def approver_update_data_def write_update_def
        store_defs ex_defs)

text \<open>
  Claim C9, amended. \<open>update_document\<close>, called at time \<open>now\<close> on an existing document
  with any update dictionary \<open>ud\<close> (also one that carries a \<^verbatim>\<open>last_modified\<close> of its
  own), leaves the document with \<^verbatim>\<open>last_modified\<close> equal to \<open>now\<close> cut to whole
  milliseconds; whenever one of the three handlers that write documents changes the
  store, the document it was called on carries that stamp afterwards; and the stamp is
  the previous value of \<^verbatim>\<open>last_modified\<close> exactly when \<open>now\<close> lies in the millisecond of
  the previous value.
\<close>

theorem every_update_stamps_last_modified:
  assumes "get_document_by_id db k = Some d"
  shows "map_option last_modified (get_document_by_id (update_document now k ud db) k)
           = Some (datetime_to_millis now)
       \<and> (snd (get_document b64 now cu k db) \<noteq> db \<longrightarrow>
            map_option last_modified
              (get_document_by_id (snd (get_document b64 now cu k db)) k)
              = Some (datetime_to_millis now))
       \<and> (snd (update_document_status now cu k update db) \<noteq> db \<longrightarrow>
            map_option last_modified
              (get_document_by_id (snd (update_document_status now cu k update db)) k)
              = Some (datetime_to_millis now))
       \<and> (snd (add_approvers now cu k ids db) \<noteq> db \<longrightarrow>
            map_option last_modified
              (get_document_by_id (snd (add_approvers now cu k ids db)) k)
              = Some (datetime_to_millis now))
       \<and> (map_option last_modified (get_document_by_id (update_document now k ud db) k)
            = Some (last_modified d)
          \<longleftrightarrow> last_modified d * 1000 \<le> now \<and> now < last_modified d * 1000 + 1000)"
proof -
  have a: "map_option last_modified (get_document_by_id (update_document now k ud' db) k)
             = Some (datetime_to_millis now)"
    for ud'
    by (rule update_document_stamps [OF assms])
  have g: "snd (get_document b64 now cu k db) \<noteq> db \<longrightarrow>
            map_option last_modified
              (get_document_by_id (snd (get_document b64 now cu k db)) k)
              = Some (datetime_to_millis now)"
    using get_document_writes [of b64 now cu k db] a by auto
  have p: "snd (update_document_status now cu k update db) \<noteq> db \<longrightarrow>
            map_option last_modified
              (get_document_by_id (snd (update_document_status now cu k update db)) k)
              = Some (datetime_to_millis now)"
    using update_document_status_writes [of now cu k update db] a by auto
  have q: "snd (add_approvers now cu k ids db) \<noteq> db \<longrightarrow>
            map_option last_modified
              (get_document_by_id (snd (add_approvers now cu k ids db)) k)
              = Some (datetime_to_millis now)"
    using add_approvers_writes [of now cu k ids db] a by auto
  have m: "datetime_to_millis now = last_modified d
             \<longleftrightarrow> last_modified d * 1000 \<le> now \<and> now < last_modified d * 1000 + 1000"
    unfolding datetime_to_millis_def by linarith
  have e: "map_option last_modified (get_document_by_id (update_document now k ud db) k)
             = Some (last_modified d)
           \<longleftrightarrow> last_modified d * 1000 \<le> now \<and> now < last_modified d * 1000 + 1000"
    using m by (simp add: a)
  from a [of ud] g p q e show ?thesis by (intro conjI)
qed

text \<open>
  In the example store, at 8 milliseconds: a dictionary that names another time is
  stamped with 8; the reviewer's read of \<open>d1\<close>, the reviewer's update of \<open>d1\<close> and the
  reviewer's new approvers list for \<open>d1\<close> each change the store and leave the stamp 8,
  which is not the previous stamp 0.
\<close>

theorem every_update_stamps_last_modified_witness:
  "get_document_by_id ex_db ''d1'' = Some ex_document
   \<and> last_modified ex_document = 0
   \<and> map_option last_modified
        (get_document_by_id
           (update_document 8200 ''d1'' (empty_update\<lparr>set_last_modified := Some 99000\<rparr>) ex_db) ''d1'')
        = Some 8
   \<and> snd (get_document id 8200 ex_reviewer ''d1'' ex_db) \<noteq> ex_db
   \<and> map_option last_modified
        (get_document_by_id (snd (get_document id 8200 ex_reviewer ''d1'' ex_db)) ''d1'') = Some 8
   \<and> snd (update_document_status 8200 ex_reviewer ''d1'' ex_reject ex_db) \<noteq> ex_db
   \<and> map_option last_modified
        (get_document_by_id (snd (update_document_status 8200 ex_reviewer ''d1'' ex_reject ex_db)) ''d1'')
        = Some 8
   \<and> snd (add_approvers 8200 ex_reviewer ''d1'' [''a1''] ex_db) \<noteq> ex_db
   \<and> map_option last_modified
        (get_document_by_id (snd (add_approvers 8200 ex_reviewer ''d1'' [''a1''] ex_db)) ''d1'')
        = Some 8
   \<and> \<not> (8200::int) < last_modified ex_document * 1000 + 1000"
proof -
  have d1: "get_document_by_id ex_db ''d1'' = Some ex_document"
    by (simp add: get_document_by_id_def ex_defs)
  have m: "last_modified ex_document = 0"
    by (simp add: ex_defs)
  have g: "get_document_by_id (snd (get_document id 8200 ex_reviewer ''d1'' ex_db)) ''d1''
             = Some (ex_document\<lparr>status := Some IN_PROGRESS, last_modified := 8\<rparr>)"
    by (simp add: get_document_def encode_content_def store_defs ex_defs)
  have p: "map_option doc_notes
             (get_document_by_id (snd (update_document_status 8200 ex_reviewer ''d1'' ex_reject ex_db)) ''d1'')
             = Some (Some ''clause 4 is missing'')"
    by (simp add: update_document_status_def reviewer_update_data_def dict_exclude_unset_def
          write_update_def store_defs ex_defs)
  have q: "map_option last_modified
             (get_document_by_id (snd (add_approvers 8200 ex_reviewer ''d1'' [''a1''] ex_db)) ''d1'')
             = Some 8"
    by (simp add: add_approvers_def invalid_approver_def store_defs ex_defs)
  have g': "snd (get_document id 8200 ex_reviewer ''d1'' ex_db) \<noteq> ex_db"
    using g d1 by (auto simp: ex_defs)
  have p': "snd (update_document_status 8200 ex_reviewer ''d1'' ex_reject ex_db) \<noteq> ex_db"
    using p d1 by (auto simp: ex_defs)
  have q': "snd (add_approvers 8200 ex_reviewer ''d1'' [''a1''] ex_db) \<noteq> ex_db"
    using q d1 m by auto
  show ?thesis
    using every_update_stamps_last_modified
            [OF d1, of 8200 "empty_update\<lparr>set_last_modified := Some 99000\<rparr>" id ex_reviewer
               ex_reject "[''a1'']"]
          d1 m g' p' q'
    by (simp add: datetime_to_millis_def)
qed

section \<open>Deleting a clause\<close>

lemma delete_existing_clause:
  assumes "ObjectId clause_id = Some k" and "clauses k = Some c"
  shows "delete_clause ObjectId clause_id clauses =
           (Inr ''Clause deleted successfully'', clauses(k := None))"
  using assms by (simp add: delete_clause_def delete_clause_try_def delete_one_def)

text \<open>
  Claim C4 says that deleting a clause id that is not in the collection answers 404. The
  handler raises that 404 inside its own \<^verbatim>\<open>try\<close> block, whose \<^verbatim>\<open>except Exception\<close>
  turns it into a 500: for every clause id that \<^verbatim>\<open>ObjectId\<close> rejects, or that names no
  stored clause, the answer is 500 and the collection is unchanged.
\<close>

theorem delete_missing_clause_is_500:
  assumes "ObjectId clause_id = None \<or> (ObjectId clause_id = Some k \<and> clauses k = None)"
  shows "delete_clause ObjectId clause_id clauses = (Inl (HTTPException 500), clauses)"
  using assms by (auto simp: delete_clause_def delete_clause_try_def)

text \<open>A well-formed id that names no clause of the example collection.\<close>

theorem delete_missing_clause_is_500_witness:
  "ex_ObjectId ''507f1f77bcf86cd799439011'' = Some ''507f1f77bcf86cd799439011''
   \<and> ex_clauses ''507f1f77bcf86cd799439011'' = None
   \<and> delete_clause ex_ObjectId ''507f1f77bcf86cd799439011'' ex_clauses
       = (Inl (HTTPException 500), ex_clauses)"
proof -
  have h: "ex_ObjectId ''507f1f77bcf86cd799439011'' = None \<or>
           (ex_ObjectId ''507f1f77bcf86cd799439011'' = Some ''507f1f77bcf86cd799439011''
            \<and> ex_clauses ''507f1f77bcf86cd799439011'' = None)"
    by (simp add: ex_ObjectId_def ex_clauses_def)
  show ?thesis
    using delete_missing_clause_is_500
            [of ex_ObjectId "''507f1f77bcf86cd799439011''" "''507f1f77bcf86cd799439011''" ex_clauses] h
    by (simp add: ex_ObjectId_def ex_clauses_def)
qed

section \<open>The statuses of error responses\<close>



























end
